theory Spec2Isabelle
  imports Complex_Main "HOL-Library.AList"
begin

section \<open>Python values and exceptions\<close>

text \<open>
  The values that travel through \<^verbatim>\<open>src/ollama_helper.py\<close> are the ones Python's JSON
  decoder produces and its encoder accepts: \<^verbatim>\<open>None\<close>, booleans, numbers, strings, lists
  and dicts with string keys. A dict is kept as the list of its items in insertion order
  (its keys are distinct); text is kept UTF-8 encoded. A float is carried as a rational:
  the program only tests floats for truth, and a non-finite float is as true as any
  non-zero one.
\<close>

datatype jvalue =
    JNull
  | JBool bool
  | JInt int
  | JFloat rat
  | JStr string
  | JArr "jvalue list"
  | JObj "(string \<times> jvalue) list"

text \<open>
  \<^verbatim>\<open>RequestException m\<close> stands for every instance of
  \<^verbatim>\<open>requests.exceptions.RequestException\<close> and of its subclasses, with \<^verbatim>\<open>str(e) = m\<close>;
  the other constructors are exceptions outside that class.
\<close>

datatype exn =
    RequestException string
  | KeyError string
  | TypeError
  | AttributeError
  | OtherException string

fun is_RequestException :: "exn \<Rightarrow> bool" where
  "is_RequestException (RequestException m) = True"
| "is_RequestException _ = False"

definition and_then :: "exn + 'a \<Rightarrow> ('a \<Rightarrow> exn + 'b) \<Rightarrow> exn + 'b" where
  "and_then r f = (case r of Inl e \<Rightarrow> Inl e | Inr x \<Rightarrow> f x)"

text \<open>\<^verbatim>\<open>d.get(k, default)\<close>: only a dict has the method.\<close>

fun py_get :: "jvalue \<Rightarrow> string \<Rightarrow> jvalue \<Rightarrow> exn + jvalue" where
  "py_get (JObj kvs) k d = Inr (case map_of kvs k of Some v \<Rightarrow> v | None \<Rightarrow> d)"
| "py_get _ k d = Inl AttributeError"

text \<open>\<^verbatim>\<open>x[k]\<close> with a string key \<^verbatim>\<open>k\<close>.\<close>

fun py_getitem :: "jvalue \<Rightarrow> string \<Rightarrow> exn + jvalue" where
  "py_getitem (JObj kvs) k = (case map_of kvs k of Some v \<Rightarrow> Inr v | None \<Rightarrow> Inl (KeyError k))"
| "py_getitem _ k = Inl TypeError"

text \<open>
  The elements a \<^verbatim>\<open>for\<close> clause draws from a value: the items of a list, the keys of a
  dict, the characters of a string; nothing else here is iterable. (With text kept UTF-8
  encoded the characters of a string are its bytes; the program subscripts each element
  with a string key, which fails alike on every one-character string.)
\<close>

fun py_iter :: "jvalue \<Rightarrow> exn + jvalue list" where
  "py_iter (JArr xs) = Inr xs"
| "py_iter (JObj kvs) = Inr (map (\<lambda>kv. JStr (fst kv)) kvs)"
| "py_iter (JStr s) = Inr (map (\<lambda>c. JStr [c]) s)"
| "py_iter _ = Inl TypeError"

text \<open>Truth value testing, as in \<^verbatim>\<open>x if x else y\<close>.\<close>

fun truthy :: "jvalue \<Rightarrow> bool" where
  "truthy JNull = False"
| "truthy (JBool b) = b"
| "truthy (JInt n) = (n \<noteq> 0)"
| "truthy (JFloat r) = (r \<noteq> 0)"
| "truthy (JStr s) = (s \<noteq> [])"
| "truthy (JArr xs) = (xs \<noteq> [])"
| "truthy (JObj kvs) = (kvs \<noteq> [])"

section \<open>The HTTP session and the output stream\<close>

datatype verb = GET | POST

record request =
  verb :: verb
  url :: string
  json :: "jvalue option"
  timeout :: "nat option"
  stream :: bool

text \<open>
  Of a response the program reads \<^verbatim>\<open>status_code\<close> and calls \<^verbatim>\<open>json()\<close>, which returns the
  decoded body or raises.
\<close>

record response =
  status_code :: int
  json_result :: "exn + jvalue"

text \<open>
  The world outside the program: the requests sent so far and the lines printed so far.
  The network answers a request, given the requests before it, with a response or an
  exception; a timeout that expires is one of the exceptions, and a request that is never
  answered is outside this model.
\<close>

record world =
  sent :: "request list"
  stdout :: "string list"

type_synonym net = "request list \<Rightarrow> request \<Rightarrow> exn + response"

definition perform :: "net \<Rightarrow> request \<Rightarrow> world \<Rightarrow> (exn + response) \<times> world" where
  "perform net rq w = (net (sent w) rq, w\<lparr>sent := sent w @ [rq]\<rparr>)"

definition session_get :: "net \<Rightarrow> string \<Rightarrow> nat option \<Rightarrow> world \<Rightarrow> (exn + response) \<times> world" where
  "session_get net u t w =
     perform net \<lparr>verb = GET, url = u, json = None, timeout = t, stream = False\<rparr> w"

definition session_post ::
  "net \<Rightarrow> string \<Rightarrow> jvalue \<Rightarrow> nat option \<Rightarrow> bool \<Rightarrow> world \<Rightarrow> (exn + response) \<times> world" where
  "session_post net u j t s w =
     perform net \<lparr>verb = POST, url = u, json = Some j, timeout = t, stream = s\<rparr> w"

definition print :: "string \<Rightarrow> world \<Rightarrow> world" where
  "print s w = w\<lparr>stdout := stdout w @ [s]\<rparr>"

section \<open>OllamaHelper\<close>

record OllamaHelper =
  base_url :: string

definition default_base_url :: string where
  "default_base_url = ''http://ollama:11434''"

definition OllamaHelper_init :: "string \<Rightarrow> OllamaHelper" where
  "OllamaHelper_init b = \<lparr>base_url = b\<rparr>"

text \<open>
  A \<^verbatim>\<open>try\<close> block with the single handler \<^verbatim>\<open>except requests.exceptions.RequestException\<close>:
  the handler's value replaces an exception of that class, any other exception propagates.
\<close>

definition is_available :: "net \<Rightarrow> OllamaHelper \<Rightarrow> world \<Rightarrow> (exn + bool) \<times> world" where
  "is_available net self w =
     (case session_get net (base_url self @ ''/api/tags'') (Some 5) w of
        (r, w') \<Rightarrow>
          (case and_then r (\<lambda>response. Inr (status_code response = 200)) of
             Inr b \<Rightarrow> (Inr b, w')
           | Inl e \<Rightarrow> if is_RequestException e then (Inr False, w') else (Inl e, w')))"

text \<open>The comprehension \<^verbatim>\<open>[model['name'] for model in ...]\<close>, left to right.\<close>

fun names_of :: "jvalue list \<Rightarrow> exn + jvalue list" where
  "names_of [] = Inr []"
| "names_of (model # rest) =
     (case py_getitem model ''name'' of
        Inl e \<Rightarrow> Inl e
      | Inr n \<Rightarrow> (case names_of rest of Inl e \<Rightarrow> Inl e | Inr ns \<Rightarrow> Inr (n # ns)))"

definition list_models :: "net \<Rightarrow> OllamaHelper \<Rightarrow> world \<Rightarrow> (exn + jvalue list) \<times> world" where
  "list_models net self w =
     (case session_get net (base_url self @ ''/api/tags'') None w of
        (r, w') \<Rightarrow>
          (case and_then r (\<lambda>response.
                  if status_code response = 200
                  then and_then (json_result response) (\<lambda>j.
                       and_then (py_get j ''models'' (JArr [])) (\<lambda>ms.
                       and_then (py_iter ms) names_of))
                  else Inr []) of
             Inr ns \<Rightarrow> (Inr ns, w')
           | Inl e \<Rightarrow> if is_RequestException e then (Inr [], w') else (Inl e, w')))"

definition pull_model :: "net \<Rightarrow> OllamaHelper \<Rightarrow> string \<Rightarrow> world \<Rightarrow> (exn + bool) \<times> world" where
  "pull_model net self model w =
     (case session_post net (base_url self @ ''/api/pull'') (JObj [(''name'', JStr model)]) None True w of
        (r, w') \<Rightarrow>
          (case and_then r (\<lambda>response. Inr (status_code response = 200)) of
             Inr b \<Rightarrow> (Inr b, w')
           | Inl e \<Rightarrow> if is_RequestException e then (Inr False, w') else (Inl e, w')))"

text \<open>
  The dict display \<^verbatim>\<open>{"model": model, "prompt": prompt, "stream": False, **kwargs}\<close>: the
  items of \<^verbatim>\<open>kwargs\<close> are stored one after the other, a key already there keeps its place
  and takes the new value.
\<close>

definition ask_data :: "string \<Rightarrow> string \<Rightarrow> (string \<times> jvalue) list \<Rightarrow> (string \<times> jvalue) list" where
  "ask_data prompt model kwargs =
     fold (\<lambda>kv d. AList.update (fst kv) (snd kv) d) kwargs
       [(''model'', JStr model), (''prompt'', JStr prompt), (''stream'', JBool False)]"

text \<open>The body of \<^verbatim>\<open>ask\<close>, its parameters bound; Python's \<^verbatim>\<open>None\<close> is \<^term>\<open>JNull\<close>.\<close>

definition ask ::
  "net \<Rightarrow> OllamaHelper \<Rightarrow> string \<Rightarrow> string \<Rightarrow> (string \<times> jvalue) list \<Rightarrow> world \<Rightarrow> (exn + jvalue) \<times> world" where
  "ask net self prompt model kwargs w =
     (let data = ask_data prompt model kwargs in
      case session_post net (base_url self @ ''/api/generate'') (JObj data) (Some 60) False w of
        (r, w') \<Rightarrow>
          (case and_then r (\<lambda>response.
                  if status_code response = 200
                  then and_then (json_result response) (\<lambda>j. py_get j ''response'' (JStr ''''))
                  else Inr JNull) of
             Inr v \<Rightarrow> (Inr v, w')
           | Inl e \<Rightarrow>
               (case e of
                  RequestException m \<Rightarrow> (Inr JNull, print (''Error asking Ollama: '' @ m) w')
                | _ \<Rightarrow> (Inl e, w'))))"

text \<open>
  The call \<^verbatim>\<open>self.ask(prompt, model, **extra)\<close> against the signature
  \<^verbatim>\<open>def ask(self, prompt, model="llama2", **kwargs)\<close>: a keyword that names a parameter
  already given positionally is rejected with \<^verbatim>\<open>TypeError\<close> (got multiple values for
  argument) before the body runs; the remaining keywords become \<^verbatim>\<open>kwargs\<close>.
\<close>

definition call_ask ::
  "net \<Rightarrow> OllamaHelper \<Rightarrow> string \<Rightarrow> string \<Rightarrow> (string \<times> jvalue) list \<Rightarrow> world \<Rightarrow> (exn + jvalue) \<times> world" where
  "call_ask net self prompt model extra w =
     (if list_ex (\<lambda>k. k \<in> set (map fst extra)) [''self'', ''prompt'', ''model'']
      then (Inl TypeError, w)
      else ask net self prompt model extra w)"

section \<open>Convenience functions\<close>

definition cross_mark :: string where
  "cross_mark = [CHR 0xE2, CHR 0x9D, CHR 0x8C]"

definition check_mark :: string where
  "check_mark = [CHR 0xE2, CHR 0x9C, CHR 0x85]"

definition inbox_tray :: string where
  "inbox_tray = [CHR 0xF0, CHR 0x9F, CHR 0x93, CHR 0xA5]"

definition setup_ollama :: "net \<Rightarrow> string \<Rightarrow> world \<Rightarrow> (exn + OllamaHelper) \<times> world" where
  "setup_ollama net model w =
     (let ollama = OllamaHelper_init default_base_url in
      case is_available net ollama w of
        (Inl e, w1) \<Rightarrow> (Inl e, w1)
      | (Inr available, w1) \<Rightarrow>
          if \<not> available
          then (Inr ollama,
                print (cross_mark @ '' Ollama server not available. Please start Ollama first.'') w1)
          else
            (case list_models net ollama w1 of
               (Inl e, w2) \<Rightarrow> (Inl e, w2)
             | (Inr models, w2) \<Rightarrow>
                 if JStr model \<notin> set models
                 then
                   (let w3 = print (inbox_tray @ '' Pulling '' @ model @ '' model...'') w2 in
                    case pull_model net ollama model w3 of
                      (Inl e, w4) \<Rightarrow> (Inl e, w4)
                    | (Inr pulled, w4) \<Rightarrow>
                        if pulled
                        then (Inr ollama, print (check_mark @ '' '' @ model @ '' model ready!'') w4)
                        else (Inr ollama,
                              print (cross_mark @ '' Failed to pull '' @ model @ '' model'') w4))
                 else
                   (Inr ollama,
                    print (check_mark @ '' '' @ model @ '' model already available!'') w2)))"

definition ask_ai :: "net \<Rightarrow> string \<Rightarrow> string \<Rightarrow> world \<Rightarrow> (exn + jvalue) \<times> world" where
  "ask_ai net prompt model w =
     (let ollama = OllamaHelper_init default_base_url in
      case ask net ollama prompt model [] w of
        (Inl e, w') \<Rightarrow> (Inl e, w')
      | (Inr response, w') \<Rightarrow>
          (Inr (if truthy response then response
                else JStr ''Sorry, I couldn't get a response from the AI.''), w'))"

section \<open>Sample servers\<close>

text \<open>A server that gives every request the same response, and one that cannot be reached.\<close>

definition answering :: "response \<Rightarrow> net" where
  "answering r = (\<lambda>history rq. Inr r)"

definition unreachable :: "string \<Rightarrow> net" where
  "unreachable m = (\<lambda>history rq. Inl (RequestException m))"

definition world0 :: world where
  "world0 = \<lparr>sent = [], stdout = []\<rparr>"

section \<open>Auxiliary facts\<close>

lemma names_of_list_all2:
  "list_all2 (\<lambda>entry n. \<exists>fields. entry = JObj fields \<and> map_of fields ''name'' = Some n) entries names
   \<Longrightarrow> names_of entries = Inr names"
  by (induction entries names rule: list_all2_induct) auto

lemma map_of_fold_update:
  "map_of (fold (\<lambda>kv d. AList.update (fst kv) (snd kv) d) kvs d) = map_of d ++ map_of (rev kvs)"
  by (induction kvs arbitrary: d) (auto simp: update_conv')

lemma map_of_rev_distinct:
  "distinct (map fst kvs) \<Longrightarrow> map_of (rev kvs) = map_of kvs"
proof (induction kvs)
  case Nil
  show ?case by simp
next
  case (Cons kv kvs)
  then have "fst kv \<notin> dom (map_of kvs)" by (simp add: dom_map_of_conv_image_fst)
  then have "[fst kv \<mapsto> snd kv] ++ map_of kvs = (map_of kvs)(fst kv \<mapsto> snd kv)"
    by (auto simp: map_add_def fun_eq_iff split: option.splits)
  with Cons show ?case by (cases kv) simp
qed

lemma names_of_all_named:
  "\<forall>entry\<in>set entries. \<exists>fields n. entry = JObj fields \<and> map_of fields ''name'' = Some n
   \<Longrightarrow> \<exists>names. names_of entries = Inr names"
  by (induction entries) auto

lemma names_of_unnamed_entry:
  "\<forall>entry\<in>set entries. \<exists>fields. entry = JObj fields
   \<Longrightarrow> \<exists>fields. JObj fields \<in> set entries \<and> map_of fields ''name'' = None
   \<Longrightarrow> names_of entries = Inl (KeyError ''name'')"
proof (induction entries)
  case Nil
  then show ?case by simp
next
  case (Cons entry entries)
  from Cons.prems(1) obtain fields where entry: "entry = JObj fields" by auto
  show ?case
  proof (cases "map_of fields ''name''")
    case None
    with entry show ?thesis by simp
  next
    case (Some n)
    with entry Cons.prems(2)
    have "\<exists>fields. JObj fields \<in> set entries \<and> map_of fields ''name'' = None" by auto
    with Cons.IH Cons.prems(1) have "names_of entries = Inl (KeyError ''name'')" by simp
    with entry Some show ?thesis by simp
  qed
qed

lemma ask_sent:
  "sent (snd (ask net self prompt model kwargs w))
     = sent w @ [\<lparr>verb = POST, url = base_url self @ ''/api/generate'',
                   json = Some (JObj (ask_data prompt model kwargs)),
                   timeout = Some 60, stream = False\<rparr>]"
  by (simp add: ask_def Let_def session_post_def perform_def print_def
           split: sum.splits exn.splits)

section \<open>The request body of \<^verbatim>\<open>ask\<close>\<close>

text \<open>
  C1, as stated, fails: with prompt and model given, an extra parameter named \<^verbatim>\<open>model\<close>
  does not override anything. The call is rejected with \<^verbatim>\<open>TypeError\<close> and no request is
  sent.
\<close>

theorem call_ask_duplicate_model_counterexample:
  "call_ask (answering \<lparr>status_code = 200, json_result = Inr (JObj [(''response'', JStr ''ok'')])\<rparr>)
      (OllamaHelper_init default_base_url) ''hello'' ''llama2'' [(''model'', JStr ''mistral'')] world0
   = (Inl TypeError, world0)"
  by (simp add: call_ask_def)

text \<open>
  C1, amended. For extra parameters that form a mapping and name none of \<^verbatim>\<open>self\<close>,
  \<^verbatim>\<open>prompt\<close>, \<^verbatim>\<open>model\<close>, the call sends one POST to \<^verbatim>\<open>/api/generate\<close> whose body is the
  merge of \<^verbatim>\<open>{"model": model, "prompt": prompt, "stream": False}\<close> with the extra
  parameters, the extra parameters winning; so \<^verbatim>\<open>stream=True\<close> gives a body with
  \<^verbatim>\<open>"stream": true\<close>. Extra parameters that name \<^verbatim>\<open>prompt\<close> or \<^verbatim>\<open>model\<close> are rejected
  with \<^verbatim>\<open>TypeError\<close>, the world untouched.
\<close>

theorem call_ask_body_is_merge:
  "(distinct (map fst extra) \<and> ''self'' \<notin> fst ` set extra
      \<and> ''prompt'' \<notin> fst ` set extra \<and> ''model'' \<notin> fst ` set extra
    \<longrightarrow> sent (snd (call_ask net self prompt model extra w))
           = sent w @ [\<lparr>verb = POST, url = base_url self @ ''/api/generate'',
                         json = Some (JObj (ask_data prompt model extra)),
                         timeout = Some 60, stream = False\<rparr>]
       \<and> map_of (ask_data prompt model extra)
           = map_of [(''model'', JStr model), (''prompt'', JStr prompt), (''stream'', JBool False)]
             ++ map_of extra
       \<and> (map_of extra ''stream'' = Some (JBool True)
            \<longrightarrow> map_of (ask_data prompt model extra) ''stream'' = Some (JBool True)))
 \<and> (''prompt'' \<in> fst ` set extra \<or> ''model'' \<in> fst ` set extra
    \<longrightarrow> call_ask net self prompt model extra w = (Inl TypeError, w))"
proof -
  have merge: "map_of (ask_data prompt model extra)
           = map_of [(''model'', JStr model), (''prompt'', JStr prompt), (''stream'', JBool False)]
             ++ map_of extra" if "distinct (map fst extra)"
    unfolding ask_data_def map_of_fold_update
    using that by (simp only: map_of_rev_distinct)
  have trace: "sent (snd (call_ask net self prompt model extra w))
           = sent w @ [\<lparr>verb = POST, url = base_url self @ ''/api/generate'',
                         json = Some (JObj (ask_data prompt model extra)),
                         timeout = Some 60, stream = False\<rparr>]"
    if "''self'' \<notin> fst ` set extra" "''prompt'' \<notin> fst ` set extra" "''model'' \<notin> fst ` set extra"
  proof -
    from that have "call_ask net self prompt model extra w = ask net self prompt model extra w"
      by (simp add: call_ask_def)
    then show ?thesis by (simp only: ask_sent)
  qed
  have override: "map_of (ask_data prompt model extra) ''stream'' = Some (JBool True)"
    if "distinct (map fst extra)" "map_of extra ''stream'' = Some (JBool True)"
    using merge [OF that(1)] that(2) by (simp add: map_add_def)
  have rejected: "call_ask net self prompt model extra w = (Inl TypeError, w)"
    if "''prompt'' \<in> fst ` set extra \<or> ''model'' \<in> fst ` set extra"
    using that by (auto simp: call_ask_def)
  from merge trace override rejected show ?thesis by blast
qed

theorem call_ask_body_is_merge_witness:
  "sent (snd (call_ask (unreachable ''Connection refused'') (OllamaHelper_init default_base_url)
                ''hello'' ''llama2'' [(''stream'', JBool True), (''temperature'', JInt 0)] world0))
     = [\<lparr>verb = POST, url = ''http://ollama:11434/api/generate'',
          json = Some (JObj [(''model'', JStr ''llama2''), (''prompt'', JStr ''hello''),
                             (''stream'', JBool True), (''temperature'', JInt 0)]),
          timeout = Some 60, stream = False\<rparr>]
   \<and> map_of (ask_data ''hello'' ''llama2'' [(''stream'', JBool True), (''temperature'', JInt 0)])
        ''stream'' = Some (JBool True)
   \<and> call_ask (unreachable ''Connection refused'') (OllamaHelper_init default_base_url)
        ''hello'' ''llama2'' [(''prompt'', JStr ''bye'')] world0 = (Inl TypeError, world0)"
  using call_ask_body_is_merge
          [where extra = "[(''stream'', JBool True), (''temperature'', JInt 0)]"
             and net = "unreachable ''Connection refused''"
             and self = "OllamaHelper_init default_base_url"
             and prompt = "''hello''" and model = "''llama2''" and w = world0]
        call_ask_body_is_merge
          [where extra = "[(''prompt'', JStr ''bye'')]"
             and net = "unreachable ''Connection refused''"
             and self = "OllamaHelper_init default_base_url"
             and prompt = "''hello''" and model = "''llama2''" and w = world0]
  by (simp add: world0_def OllamaHelper_init_def default_base_url_def ask_data_def)

section \<open>The listing\<close>

text \<open>
  C2. When the listing request is answered with status 200 and the body decodes to an
  object whose \<^verbatim>\<open>models\<close> is an array of objects that each have a \<^verbatim>\<open>name\<close>,
  \<^verbatim>\<open>list_models\<close> returns those names position by position: same length, same order,
  repetitions kept.
\<close>

theorem list_models_names_in_server_order:
  assumes "net (sent w) \<lparr>verb = GET, url = base_url self @ ''/api/tags'', json = None,
                          timeout = None, stream = False\<rparr> = Inr response"
      and "status_code response = 200"
      and "json_result response = Inr (JObj body)"
      and "map_of body ''models'' = Some (JArr entries)"
      and "list_all2 (\<lambda>entry n. \<exists>fields. entry = JObj fields \<and> map_of fields ''name'' = Some n)
             entries names"
  shows "fst (list_models net self w) = Inr names"
  using assms
  by (simp add: list_models_def session_get_def perform_def and_then_def names_of_list_all2)

theorem list_models_names_witness:
  "fst (list_models
         (answering \<lparr>status_code = 200, json_result = Inr (JObj [(''models'',
            JArr [JObj [(''name'', JStr ''a'')], JObj [(''name'', JStr ''b''), (''size'', JInt 7)],
                  JObj [(''name'', JStr ''a'')]])])\<rparr>)
         (OllamaHelper_init default_base_url) world0)
   = Inr [JStr ''a'', JStr ''b'', JStr ''a'']"
  by (rule list_models_names_in_server_order
        [where response = "\<lparr>status_code = 200, json_result = Inr (JObj [(''models'',
            JArr [JObj [(''name'', JStr ''a'')], JObj [(''name'', JStr ''b''), (''size'', JInt 7)],
                  JObj [(''name'', JStr ''a'')]])])\<rparr>"
           and body = "[(''models'',
            JArr [JObj [(''name'', JStr ''a'')], JObj [(''name'', JStr ''b''), (''size'', JInt 7)],
                  JObj [(''name'', JStr ''a'')]])]"
           and entries = "[JObj [(''name'', JStr ''a'')], JObj [(''name'', JStr ''b''), (''size'', JInt 7)],
                  JObj [(''name'', JStr ''a'')]]"])
     (simp_all add: answering_def)

text \<open>
  C3, as stated, fails: a status 200 listing with an entry that has no \<^verbatim>\<open>name\<close> makes
  \<^verbatim>\<open>list_models\<close> raise \<^verbatim>\<open>KeyError\<close>, which the handler does not catch.
\<close>

theorem list_models_missing_name_counterexample:
  "fst (list_models
         (answering \<lparr>status_code = 200, json_result = Inr (JObj [(''models'', JArr [JObj []])])\<rparr>)
         (OllamaHelper_init default_base_url) world0)
   = Inl (KeyError ''name'')"
  by (simp add: list_models_def session_get_def perform_def and_then_def answering_def)

text \<open>
  C3, amended. \<^verbatim>\<open>list_models\<close> returns the empty list when the listing request is
  answered with a status other than 200, when the request raises a \<^verbatim>\<open>RequestException\<close>,
  and when decoding a status 200 body raises one; no \<^verbatim>\<open>RequestException\<close> ever reaches
  the caller. A status 200 body that decodes to an object whose \<^verbatim>\<open>models\<close>, when present,
  is an array of objects with a \<^verbatim>\<open>name\<close> each raises nothing; an array of objects one of
  which has no \<^verbatim>\<open>name\<close> raises \<^verbatim>\<open>KeyError\<close>.
\<close>

theorem list_models_degrades:
  assumes "rq = \<lparr>verb = GET, url = base_url self @ ''/api/tags'', json = None,
                 timeout = None, stream = False\<rparr>"
  shows "(\<forall>response. net (sent w) rq = Inr response \<and> status_code response \<noteq> 200
            \<longrightarrow> fst (list_models net self w) = Inr [])
       \<and> (\<forall>m. net (sent w) rq = Inl (RequestException m)
            \<longrightarrow> fst (list_models net self w) = Inr [])
       \<and> (\<forall>response m. net (sent w) rq = Inr response \<and> status_code response = 200
              \<and> json_result response = Inl (RequestException m)
            \<longrightarrow> fst (list_models net self w) = Inr [])
       \<and> (\<forall>m. fst (list_models net self w) \<noteq> Inl (RequestException m))
       \<and> (\<forall>response body. net (sent w) rq = Inr response \<and> status_code response = 200
              \<and> json_result response = Inr (JObj body)
              \<and> (\<forall>ms. map_of body ''models'' = Some ms
                    \<longrightarrow> (\<exists>entries. ms = JArr entries
                          \<and> (\<forall>entry\<in>set entries. \<exists>fields n.
                                 entry = JObj fields \<and> map_of fields ''name'' = Some n)))
            \<longrightarrow> (\<exists>names. fst (list_models net self w) = Inr names))
       \<and> (\<forall>response body entries. net (sent w) rq = Inr response \<and> status_code response = 200
              \<and> json_result response = Inr (JObj body)
              \<and> map_of body ''models'' = Some (JArr entries)
              \<and> (\<forall>entry\<in>set entries. \<exists>fields. entry = JObj fields)
              \<and> (\<exists>fields. JObj fields \<in> set entries \<and> map_of fields ''name'' = None)
            \<longrightarrow> fst (list_models net self w) = Inl (KeyError ''name''))"
proof -
  have degrade: "(\<forall>response. net (sent w) rq = Inr response \<and> status_code response \<noteq> 200
            \<longrightarrow> fst (list_models net self w) = Inr [])
       \<and> (\<forall>m. net (sent w) rq = Inl (RequestException m)
            \<longrightarrow> fst (list_models net self w) = Inr [])
       \<and> (\<forall>response m. net (sent w) rq = Inr response \<and> status_code response = 200
              \<and> json_result response = Inl (RequestException m)
            \<longrightarrow> fst (list_models net self w) = Inr [])
       \<and> (\<forall>m. fst (list_models net self w) \<noteq> Inl (RequestException m))"
    using assms
    by (auto simp: list_models_def session_get_def perform_def and_then_def
             split: sum.splits if_splits)
  have wellformed: "\<exists>names. fst (list_models net self w) = Inr names"
    if "net (sent w) rq = Inr response" "status_code response = 200"
       "json_result response = Inr (JObj body)"
       "\<forall>ms. map_of body ''models'' = Some ms
            \<longrightarrow> (\<exists>entries. ms = JArr entries
                  \<and> (\<forall>entry\<in>set entries. \<exists>fields n.
                         entry = JObj fields \<and> map_of fields ''name'' = Some n))"
    for response body
  proof (cases "map_of body ''models''")
    case None
    with that assms show ?thesis
      by (simp add: list_models_def session_get_def perform_def and_then_def)
  next
    case (Some ms)
    with that(4) obtain entries where ms: "ms = JArr entries"
      and named: "\<forall>entry\<in>set entries. \<exists>fields n.
                    entry = JObj fields \<and> map_of fields ''name'' = Some n"
      by blast
    from names_of_all_named [OF named] obtain names where "names_of entries = Inr names" ..
    with that(1-3) Some ms assms show ?thesis
      by (simp add: list_models_def session_get_def perform_def and_then_def)
  qed
  have unnamed: "fst (list_models net self w) = Inl (KeyError ''name'')"
    if "net (sent w) rq = Inr response" "status_code response = 200"
       "json_result response = Inr (JObj body)"
       "map_of body ''models'' = Some (JArr entries)"
       "\<forall>entry\<in>set entries. \<exists>fields. entry = JObj fields"
       "\<exists>fields. JObj fields \<in> set entries \<and> map_of fields ''name'' = None"
    for response body entries
    using that(1-4) assms names_of_unnamed_entry [OF that(5,6)]
    by (simp add: list_models_def session_get_def perform_def and_then_def)
  from degrade wellformed unnamed show ?thesis by blast
qed

theorem list_models_degrades_witness:
  "fst (list_models (answering \<lparr>status_code = 500, json_result = Inr (JObj [(''models'', JArr [JObj []])])\<rparr>)
          (OllamaHelper_init default_base_url) world0) = Inr []
 \<and> fst (list_models (unreachable ''Connection refused'')
          (OllamaHelper_init default_base_url) world0) = Inr []
 \<and> fst (list_models (answering \<lparr>status_code = 200, json_result = Inl (RequestException ''Expecting value'')\<rparr>)
          (OllamaHelper_init default_base_url) world0) = Inr []
 \<and> (\<exists>names. fst (list_models (answering \<lparr>status_code = 200,
                 json_result = Inr (JObj [(''models'', JArr [JObj [(''name'', JStr ''llama2'')]])])\<rparr>)
          (OllamaHelper_init default_base_url) world0) = Inr names)
 \<and> fst (list_models (answering \<lparr>status_code = 200,
                 json_result = Inr (JObj [(''models'',
                    JArr [JObj [(''name'', JStr ''llama2'')], JObj [(''size'', JInt 7)]])])\<rparr>)
          (OllamaHelper_init default_base_url) world0) = Inl (KeyError ''name'')"
  using list_models_degrades [OF refl,
          where net = "answering \<lparr>status_code = 500, json_result = Inr (JObj [(''models'', JArr [JObj []])])\<rparr>"
            and self = "OllamaHelper_init default_base_url" and w = world0]
        list_models_degrades [OF refl, where net = "unreachable ''Connection refused''"
            and self = "OllamaHelper_init default_base_url" and w = world0]
        list_models_degrades [OF refl,
          where net = "answering \<lparr>status_code = 200, json_result = Inl (RequestException ''Expecting value'')\<rparr>"
            and self = "OllamaHelper_init default_base_url" and w = world0]
        list_models_degrades [OF refl,
          where net = "answering \<lparr>status_code = 200,
                 json_result = Inr (JObj [(''models'', JArr [JObj [(''name'', JStr ''llama2'')]])])\<rparr>"
            and self = "OllamaHelper_init default_base_url" and w = world0]
        list_models_degrades [OF refl,
          where net = "answering \<lparr>status_code = 200,
                 json_result = Inr (JObj [(''models'',
                    JArr [JObj [(''name'', JStr ''llama2'')], JObj [(''size'', JInt 7)]])])\<rparr>"
            and self = "OllamaHelper_init default_base_url" and w = world0]
  by (simp add: unreachable_def answering_def conj_disj_distribR ex_disj_distrib)

section \<open>The completion\<close>

text \<open>
  C4, as stated, fails: a status 200 response whose body decodes to a list has no
  \<^verbatim>\<open>get\<close> method, and \<^verbatim>\<open>ask\<close> raises \<^verbatim>\<open>AttributeError\<close> instead of returning the empty
  string.
\<close>

theorem ask_non_object_body_counterexample:
  "fst (ask (answering \<lparr>status_code = 200, json_result = Inr (JArr [])\<rparr>)
          (OllamaHelper_init default_base_url) ''summarize this dataset'' ''llama2'' [] world0)
   = Inl AttributeError"
  by (simp add: ask_def session_post_def perform_def and_then_def answering_def)

text \<open>
  C4, amended. When the generate request is answered with status 200 and the body
  decodes to an object, \<^verbatim>\<open>ask\<close> returns the object's \<^verbatim>\<open>response\<close> field, and the empty
  string when the object has none; when it is answered with any other status, \<^verbatim>\<open>ask\<close>
  returns \<^verbatim>\<open>None\<close>.
\<close>

theorem ask_returns_response_field:
  assumes "net (sent w) \<lparr>verb = POST, url = base_url self @ ''/api/generate'',
                          json = Some (JObj (ask_data prompt model kwargs)),
                          timeout = Some 60, stream = False\<rparr> = Inr response"
  shows "(\<forall>body. status_code response = 200 \<and> json_result response = Inr (JObj body)
            \<longrightarrow> fst (ask net self prompt model kwargs w)
                = Inr (case map_of body ''response'' of Some v \<Rightarrow> v | None \<Rightarrow> JStr ''''))
       \<and> (status_code response \<noteq> 200
            \<longrightarrow> fst (ask net self prompt model kwargs w) = Inr JNull)"
  using assms
  by (simp add: ask_def session_post_def perform_def and_then_def)

theorem ask_returns_response_field_witness:
  "fst (ask (answering \<lparr>status_code = 200,
                         json_result = Inr (JObj [(''response'', JStr ''try a histogram'')])\<rparr>)
          (OllamaHelper_init default_base_url) ''summarize this dataset'' ''llama2'' [] world0)
     = Inr (JStr ''try a histogram'')
 \<and> fst (ask (answering \<lparr>status_code = 200, json_result = Inr (JObj [(''done'', JBool True)])\<rparr>)
          (OllamaHelper_init default_base_url) ''summarize this dataset'' ''llama2'' [] world0)
     = Inr (JStr '''')
 \<and> fst (ask (answering \<lparr>status_code = 503,
                         json_result = Inr (JObj [(''response'', JStr ''try a histogram'')])\<rparr>)
          (OllamaHelper_init default_base_url) ''summarize this dataset'' ''llama2'' [] world0)
     = Inr JNull"
  using ask_returns_response_field
          [of "answering \<lparr>status_code = 200,
                         json_result = Inr (JObj [(''response'', JStr ''try a histogram'')])\<rparr>"
              world0 "OllamaHelper_init default_base_url" "''summarize this dataset''" "''llama2''" "[]"
              "\<lparr>status_code = 200,
                         json_result = Inr (JObj [(''response'', JStr ''try a histogram'')])\<rparr>"]
        ask_returns_response_field
          [of "answering \<lparr>status_code = 200, json_result = Inr (JObj [(''done'', JBool True)])\<rparr>"
              world0 "OllamaHelper_init default_base_url" "''summarize this dataset''" "''llama2''" "[]"
              "\<lparr>status_code = 200, json_result = Inr (JObj [(''done'', JBool True)])\<rparr>"]
        ask_returns_response_field
          [of "answering \<lparr>status_code = 503,
                         json_result = Inr (JObj [(''response'', JStr ''try a histogram'')])\<rparr>"
              world0 "OllamaHelper_init default_base_url" "''summarize this dataset''" "''llama2''" "[]"
              "\<lparr>status_code = 503,
                         json_result = Inr (JObj [(''response'', JStr ''try a histogram'')])\<rparr>"]
  by (simp add: answering_def)

text \<open>
  C5. When the generate request raises a \<^verbatim>\<open>RequestException\<close>, \<^verbatim>\<open>ask\<close> prints
  \<^verbatim>\<open>Error asking Ollama: \<close> followed by the exception's text and returns \<^verbatim>\<open>None\<close>; the
  other three methods never print, whatever the network does.
\<close>

theorem ask_prints_on_network_failure:
  "(\<forall>m. net (sent w) \<lparr>verb = POST, url = base_url self @ ''/api/generate'',
                       json = Some (JObj (ask_data prompt model kwargs)),
                       timeout = Some 60, stream = False\<rparr> = Inl (RequestException m)
        \<longrightarrow> fst (ask net self prompt model kwargs w) = Inr JNull
          \<and> stdout (snd (ask net self prompt model kwargs w))
              = stdout w @ [''Error asking Ollama: '' @ m])
 \<and> stdout (snd (is_available net self w)) = stdout w
 \<and> stdout (snd (list_models net self w)) = stdout w
 \<and> stdout (snd (pull_model net self model w)) = stdout w"
  by (auto simp: ask_def Let_def is_available_def list_models_def pull_model_def
                 session_post_def session_get_def perform_def print_def and_then_def
           split: sum.splits)

theorem ask_prints_witness:
  "fst (ask (unreachable ''Connection refused'') (OllamaHelper_init default_base_url)
          ''hello'' ''llama2'' [] world0) = Inr JNull
 \<and> stdout (snd (ask (unreachable ''Connection refused'') (OllamaHelper_init default_base_url)
          ''hello'' ''llama2'' [] world0)) = [''Error asking Ollama: Connection refused'']"
  using ask_prints_on_network_failure
          [where net = "unreachable ''Connection refused''"
             and self = "OllamaHelper_init default_base_url"
             and prompt = "''hello''" and model = "''llama2''" and kwargs = "[]" and w = world0]
  by (simp add: unreachable_def world0_def)

section \<open>The availability probe and the download request\<close>

text \<open>
  C6. \<^verbatim>\<open>is_available\<close> sends one GET to \<^verbatim>\<open>/api/tags\<close> with timeout 5 and prints nothing; it
  returns \<^verbatim>\<open>True\<close> exactly when that request is answered with status 200, and \<^verbatim>\<open>False\<close>
  when the request raises a \<^verbatim>\<open>RequestException\<close>.
\<close>

theorem is_available_true_iff_200:
  assumes "rq = \<lparr>verb = GET, url = base_url self @ ''/api/tags'', json = None, timeout = Some 5, stream = False\<rparr>"
  shows "sent (snd (is_available net self w)) = sent w @ [rq]
       \<and> stdout (snd (is_available net self w)) = stdout w
       \<and> (fst (is_available net self w) = Inr True \<longleftrightarrow> (\<exists>r. net (sent w) rq = Inr r \<and> status_code r = 200))
       \<and> (\<forall>m. net (sent w) rq = Inl (RequestException m) \<longrightarrow> fst (is_available net self w) = Inr False)"
  using assms
  by (auto simp: is_available_def session_get_def perform_def and_then_def split: sum.splits)

theorem is_available_witness:
  "fst (is_available (unreachable ''Connection refused'') (OllamaHelper_init default_base_url) world0) = Inr False
 \<and> fst (is_available (answering \<lparr>status_code = 200, json_result = Inr (JObj [])\<rparr>)
          (OllamaHelper_init default_base_url) world0) = Inr True
 \<and> fst (is_available (answering \<lparr>status_code = 404, json_result = Inr (JObj [])\<rparr>)
          (OllamaHelper_init default_base_url) world0) \<noteq> Inr True"
  using is_available_true_iff_200 [OF refl, of "unreachable ''Connection refused''" "OllamaHelper_init default_base_url" world0]
        is_available_true_iff_200 [OF refl, of "answering \<lparr>status_code = 200, json_result = Inr (JObj [])\<rparr>" "OllamaHelper_init default_base_url" world0]
        is_available_true_iff_200 [OF refl, of "answering \<lparr>status_code = 404, json_result = Inr (JObj [])\<rparr>" "OllamaHelper_init default_base_url" world0]
  by (simp add: unreachable_def answering_def)

text \<open>
  C7. \<^verbatim>\<open>pull_model\<close> sends one streaming POST to \<^verbatim>\<open>/api/pull\<close> with the body
  \<^verbatim>\<open>{"name": model}\<close>; it returns \<^verbatim>\<open>True\<close> exactly when that request is answered with
  status 200, whatever the body holds, and \<^verbatim>\<open>False\<close> when the request raises a
  \<^verbatim>\<open>RequestException\<close>.
\<close>

theorem pull_model_true_iff_200:
  assumes "rq = \<lparr>verb = POST, url = base_url self @ ''/api/pull'',
                 json = Some (JObj [(''name'', JStr model)]), timeout = None, stream = True\<rparr>"
  shows "sent (snd (pull_model net self model w)) = sent w @ [rq]
       \<and> (fst (pull_model net self model w) = Inr True \<longleftrightarrow> (\<exists>r. net (sent w) rq = Inr r \<and> status_code r = 200))
       \<and> (\<forall>m. net (sent w) rq = Inl (RequestException m) \<longrightarrow> fst (pull_model net self model w) = Inr False)"
  using assms
  by (auto simp: pull_model_def session_post_def perform_def and_then_def split: sum.splits)

theorem pull_model_witness:
  "fst (pull_model (unreachable ''Connection refused'') (OllamaHelper_init default_base_url) ''llama2'' world0) = Inr False
 \<and> fst (pull_model (answering \<lparr>status_code = 200, json_result = Inl (OtherException ''not read'')\<rparr>)
          (OllamaHelper_init default_base_url) ''llama2'' world0) = Inr True"
  using pull_model_true_iff_200 [OF refl, of "unreachable ''Connection refused''" "OllamaHelper_init default_base_url" "''llama2''" world0]
        pull_model_true_iff_200 [OF refl, of "answering \<lparr>status_code = 200, json_result = Inl (OtherException ''not read'')\<rparr>" "OllamaHelper_init default_base_url" "''llama2''" world0]
  by (simp add: unreachable_def answering_def)

section \<open>\<^verbatim>\<open>setup_ollama\<close> and \<^verbatim>\<open>ask_ai\<close>\<close>

text \<open>
  C8. When the probe reports the server unavailable, \<^verbatim>\<open>setup_ollama\<close> prints the
  not-available line and returns the helper it built; the probe is the only request of
  the run, so neither the listing (a GET without timeout) nor the pull (a POST to
  \<^verbatim>\<open>/api/pull\<close>) is sent.
\<close>

theorem setup_ollama_unavailable:
  assumes "ollama = OllamaHelper_init default_base_url"
      and "is_available net ollama w = (Inr False, w1)"
  shows "setup_ollama net model w
           = (Inr ollama,
              print (cross_mark @ '' Ollama server not available. Please start Ollama first.'') w1)
       \<and> sent (snd (setup_ollama net model w))
           = sent w @ [\<lparr>verb = GET, url = base_url ollama @ ''/api/tags'', json = None,
                         timeout = Some 5, stream = False\<rparr>]"
proof -
  have run: "setup_ollama net model w
           = (Inr ollama,
              print (cross_mark @ '' Ollama server not available. Please start Ollama first.'') w1)"
    using assms by (simp add: setup_ollama_def Let_def)
  have "sent w1 = sent (snd (is_available net ollama w))"
    using assms(2) by simp
  also have "\<dots> = sent w @ [\<lparr>verb = GET, url = base_url ollama @ ''/api/tags'', json = None,
                         timeout = Some 5, stream = False\<rparr>]"
    by (simp add: is_available_def session_get_def perform_def split: sum.splits)
  finally show ?thesis using run by (simp add: print_def)
qed

theorem setup_ollama_unavailable_witness:
  "setup_ollama (unreachable ''Connection refused'') ''llama2'' world0
     = (Inr (OllamaHelper_init default_base_url),
        \<lparr>sent = [\<lparr>verb = GET, url = ''http://ollama:11434/api/tags'', json = None,
                   timeout = Some 5, stream = False\<rparr>],
         stdout = [cross_mark @ '' Ollama server not available. Please start Ollama first.'']\<rparr>)"
  using setup_ollama_unavailable
          [OF refl, where net = "unreachable ''Connection refused''" and w = world0
             and model = "''llama2''"
             and ?w1.0 = "\<lparr>sent = [\<lparr>verb = GET, url = ''http://ollama:11434/api/tags'', json = None,
                   timeout = Some 5, stream = False\<rparr>], stdout = []\<rparr>"]
  by (simp add: is_available_def session_get_def perform_def and_then_def unreachable_def
        world0_def OllamaHelper_init_def default_base_url_def print_def)

text \<open>
  C9. When the probe reports the server available and the model's name is among the
  names \<^verbatim>\<open>list_models\<close> returns, \<^verbatim>\<open>setup_ollama\<close> prints the already-available line and
  returns the helper; the run sends the probe and the listing and nothing else, so no
  pull.
\<close>

theorem setup_ollama_model_present:
  assumes "ollama = OllamaHelper_init default_base_url"
      and "is_available net ollama w = (Inr True, w1)"
      and "list_models net ollama w1 = (Inr models, w2)"
      and "JStr model \<in> set models"
  shows "setup_ollama net model w
           = (Inr ollama, print (check_mark @ '' '' @ model @ '' model already available!'') w2)
       \<and> sent (snd (setup_ollama net model w))
           = sent w @ [\<lparr>verb = GET, url = base_url ollama @ ''/api/tags'', json = None,
                         timeout = Some 5, stream = False\<rparr>,
                       \<lparr>verb = GET, url = base_url ollama @ ''/api/tags'', json = None,
                         timeout = None, stream = False\<rparr>]"
proof -
  have run: "setup_ollama net model w
           = (Inr ollama, print (check_mark @ '' '' @ model @ '' model already available!'') w2)"
    using assms by (simp add: setup_ollama_def Let_def)
  have "sent w1 = sent (snd (is_available net ollama w))"
    using assms(2) by simp
  also have "\<dots> = sent w @ [\<lparr>verb = GET, url = base_url ollama @ ''/api/tags'', json = None,
                         timeout = Some 5, stream = False\<rparr>]"
    by (simp add: is_available_def session_get_def perform_def split: sum.splits)
  finally have s1: "sent w1 = sent w @ [\<lparr>verb = GET, url = base_url ollama @ ''/api/tags'',
                         json = None, timeout = Some 5, stream = False\<rparr>]" .
  have "sent w2 = sent (snd (list_models net ollama w1))"
    using assms(3) by simp
  also have "\<dots> = sent w1 @ [\<lparr>verb = GET, url = base_url ollama @ ''/api/tags'', json = None,
                         timeout = None, stream = False\<rparr>]"
    by (simp add: list_models_def session_get_def perform_def split: sum.splits)
  finally show ?thesis using run s1 by (simp add: print_def)
qed

theorem setup_ollama_model_present_witness:
  "setup_ollama
     (answering \<lparr>status_code = 200,
                 json_result = Inr (JObj [(''models'', JArr [JObj [(''name'', JStr ''llama2'')]])])\<rparr>)
     ''llama2'' world0
     = (Inr (OllamaHelper_init default_base_url),
        \<lparr>sent = [\<lparr>verb = GET, url = ''http://ollama:11434/api/tags'', json = None,
                   timeout = Some 5, stream = False\<rparr>,
                 \<lparr>verb = GET, url = ''http://ollama:11434/api/tags'', json = None,
                   timeout = None, stream = False\<rparr>],
         stdout = [check_mark @ '' llama2 model already available!'']\<rparr>)"
  using setup_ollama_model_present
          [OF refl, where net = "answering \<lparr>status_code = 200,
                 json_result = Inr (JObj [(''models'', JArr [JObj [(''name'', JStr ''llama2'')]])])\<rparr>"
             and w = world0 and model = "''llama2''" and models = "[JStr ''llama2'']"
             and ?w1.0 = "\<lparr>sent = [\<lparr>verb = GET, url = ''http://ollama:11434/api/tags'', json = None,
                   timeout = Some 5, stream = False\<rparr>], stdout = []\<rparr>"
             and ?w2.0 = "\<lparr>sent = [\<lparr>verb = GET, url = ''http://ollama:11434/api/tags'', json = None,
                   timeout = Some 5, stream = False\<rparr>,
                 \<lparr>verb = GET, url = ''http://ollama:11434/api/tags'', json = None,
                   timeout = None, stream = False\<rparr>], stdout = []\<rparr>"]
  by (simp add: is_available_def list_models_def session_get_def perform_def and_then_def
        answering_def world0_def OllamaHelper_init_def default_base_url_def print_def)

text \<open>
  C10. Whether \<^verbatim>\<open>ask\<close> returns \<^verbatim>\<open>None\<close> or the empty string, \<^verbatim>\<open>ask_ai\<close> returns the
  same fallback sentence and leaves the same world behind.
\<close>

theorem ask_ai_fallback_on_none_or_empty:
  assumes "ask net (OllamaHelper_init default_base_url) prompt model [] w = (Inr v, w')"
      and "v = JNull \<or> v = JStr ''''"
  shows "ask_ai net prompt model w
           = (Inr (JStr ''Sorry, I couldn't get a response from the AI.''), w')"
  using assms by (auto simp: ask_ai_def Let_def)

theorem ask_ai_fallback_witness:
  "ask_ai (answering \<lparr>status_code = 200, json_result = Inr (JObj [(''response'', JStr '''')])\<rparr>)
      ''hello'' ''llama2'' world0
     = (Inr (JStr ''Sorry, I couldn't get a response from the AI.''),
        \<lparr>sent = [\<lparr>verb = POST, url = ''http://ollama:11434/api/generate'',
                   json = Some (JObj [(''model'', JStr ''llama2''), (''prompt'', JStr ''hello''),
                                      (''stream'', JBool False)]),
                   timeout = Some 60, stream = False\<rparr>],
         stdout = []\<rparr>)
 \<and> ask_ai (answering \<lparr>status_code = 500, json_result = Inr (JObj [])\<rparr>)
      ''hello'' ''llama2'' world0
     = (Inr (JStr ''Sorry, I couldn't get a response from the AI.''),
        \<lparr>sent = [\<lparr>verb = POST, url = ''http://ollama:11434/api/generate'',
                   json = Some (JObj [(''model'', JStr ''llama2''), (''prompt'', JStr ''hello''),
                                      (''stream'', JBool False)]),
                   timeout = Some 60, stream = False\<rparr>],
         stdout = []\<rparr>)"
  using ask_ai_fallback_on_none_or_empty
          [where net = "answering \<lparr>status_code = 200, json_result = Inr (JObj [(''response'', JStr '''')])\<rparr>"
             and prompt = "''hello''" and model = "''llama2''" and w = world0 and v = "JStr ''''"
             and w' = "\<lparr>sent = [\<lparr>verb = POST, url = ''http://ollama:11434/api/generate'',
                   json = Some (JObj [(''model'', JStr ''llama2''), (''prompt'', JStr ''hello''),
                                      (''stream'', JBool False)]),
                   timeout = Some 60, stream = False\<rparr>],
         stdout = []\<rparr>"]
        ask_ai_fallback_on_none_or_empty
          [where net = "answering \<lparr>status_code = 500, json_result = Inr (JObj [])\<rparr>"
             and prompt = "''hello''" and model = "''llama2''" and w = world0 and v = JNull
             and w' = "\<lparr>sent = [\<lparr>verb = POST, url = ''http://ollama:11434/api/generate'',
                   json = Some (JObj [(''model'', JStr ''llama2''), (''prompt'', JStr ''hello''),
                                      (''stream'', JBool False)]),
                   timeout = Some 60, stream = False\<rparr>],
         stdout = []\<rparr>"]
  by (simp add: ask_def ask_data_def Let_def session_post_def perform_def and_then_def
        answering_def world0_def OllamaHelper_init_def default_base_url_def)

end
